theory Spec2Isabelle
  imports Main "HOL-Library.Sublist"
begin

section \<open>HTTP vocabulary\<close>

text \<open>
  The application module \<^verbatim>\<open>src/app.py\<close> is eighteen lines: it constructs one \<^verbatim>\<open>Flask\<close>
  object, registers the view \<^verbatim>\<open>hello\<close> for the rule \<^verbatim>\<open>'/'\<close>, and calls \<^verbatim>\<open>app.run\<close> under
  the \<^verbatim>\<open>__main__\<close> guard. What a request to it returns is decided by those lines together
  with the meaning of the library calls they make, so the embedding has two layers:
  the library calls (\<open>Flask\<close>, \<open>add_url_rule\<close>, \<open>wsgi_app\<close>, \<open>run\<close>), written after the
  documented behaviour of Flask and Werkzeug, and the module itself (\<open>hello\<close>,
  \<open>app_module\<close>) and its test (\<open>client_fixture\<close>, \<open>test_hello\<close>), written after the source.
\<close>

datatype http_method = GET | HEAD | POST | PUT | DELETE | CONNECT | OPTIONS | TRACE | PATCH

text \<open>
  A request as the application receives it. \<open>req_path\<close> is the path the URL map is asked to
  match (\<^verbatim>\<open>PATH_INFO\<close>: empty, or beginning with a slash); the query string is a field of
  its own.
\<close>

record request =
  req_method :: http_method
  req_path :: string
  req_query :: string
  req_headers :: "(string \<times> string) list"
  req_body :: string

record response =
  status_code :: nat
  data :: string
  mimetype :: string
  allow :: "http_method set"

text \<open>The HTTP exceptions of Werkzeug that routing and dispatch can raise, with their codes.\<close>

datatype http_exception =
    NotFound
  | MethodNotAllowed "http_method set"
  | RequestRedirect string
  | InternalServerError

fun code :: "http_exception \<Rightarrow> nat" where
  "code NotFound = 404"
| "code (MethodNotAllowed valid) = 405"
| "code (RequestRedirect location) = 308"
| "code InternalServerError = 500"

section \<open>The application object\<close>

text \<open>
  A rule is a sequence of literal text and variable parts; \<^verbatim>\<open>'/'\<close> is one literal, and the
  rule Flask adds for static files, \<^verbatim>\<open>'/static/<path:filename>'\<close>, is a literal followed by
  a \<^verbatim>\<open>path\<close> variable.
\<close>

datatype rule_part = Static string | PathVar string

record url_rule =
  rule_parts :: "rule_part list"
  rule_methods :: "http_method set"
  endpoint :: string
  provide_automatic_options :: bool

text \<open>
  The Python callables that end up in \<^verbatim>\<open>view_functions\<close>: the module's own \<^verbatim>\<open>hello\<close> and
  the framework's \<^verbatim>\<open>send_static_file\<close>.
\<close>

datatype view_id = V_hello | V_send_static_file

datatype cfg = CBool bool | CInt int | CStr string | CNone

record flask_app =
  import_name :: string
  config :: "string \<rightharpoonup> cfg"
  url_map :: "url_rule list"
  view_functions :: "(string \<times> view_id) list"
  error_handler_spec :: "(nat \<times> view_id) list"

text \<open>
  The state of one Python process, as far as the module can touch it: the \<^verbatim>\<open>Flask\<close> objects
  that exist (a reference is an index into \<open>objects\<close>), the module cache with the object each
  loaded copy of the module binds to its global \<^verbatim>\<open>app\<close>, the servers that were started, and
  the files of the static folder (name to mimetype and content).
\<close>

type_synonym ref = nat

record process =
  objects :: "flask_app list"
  sys_modules :: "string \<rightharpoonup> ref"
  servers :: "(ref \<times> string \<times> nat) list"
  static_files :: "(string \<times> string \<times> string) list"

definition fresh :: "(string \<times> string \<times> string) list \<Rightarrow> process" where
  "fresh files = \<lparr>objects = [], sys_modules = Map.empty, servers = [], static_files = files\<rparr>"

definition deref :: "ref \<Rightarrow> process \<Rightarrow> flask_app option" where
  "deref r p = (if r < length (objects p) then Some (objects p ! r) else None)"

definition update_app :: "ref \<Rightarrow> (flask_app \<Rightarrow> flask_app) \<Rightarrow> process \<Rightarrow> process" where
  "update_app r f p =
     (if r < length (objects p) then p\<lparr>objects := (objects p)[r := f (objects p ! r)]\<rparr> else p)"

subsection \<open>Registering rules\<close>

text \<open>
  \<^verbatim>\<open>Flask.add_url_rule(rule, endpoint, view_func, methods=None)\<close>: with no \<^verbatim>\<open>methods\<close> the
  rule answers \<^verbatim>\<open>GET\<close>; \<^verbatim>\<open>OPTIONS\<close> is added, answered by the framework itself, unless the
  caller listed it; Werkzeug's \<^verbatim>\<open>Rule\<close> adds \<^verbatim>\<open>HEAD\<close> to every rule that has \<^verbatim>\<open>GET\<close>.
\<close>

definition add_url_rule ::
  "rule_part list \<Rightarrow> string \<Rightarrow> view_id \<Rightarrow> http_method set option \<Rightarrow> flask_app \<Rightarrow> flask_app" where
  "add_url_rule parts ep view meths a =
     (let ms = (case meths of None \<Rightarrow> {GET} | Some given \<Rightarrow> given);
          auto_options = (OPTIONS \<notin> ms);
          ms1 = (if auto_options then insert OPTIONS ms else ms);
          ms2 = (if GET \<in> ms1 then insert HEAD ms1 else ms1);
          r = \<lparr>rule_parts = parts, rule_methods = ms2, endpoint = ep,
               provide_automatic_options = auto_options\<rparr>
      in a\<lparr>url_map := url_map a @ [r], view_functions := (ep, view) # view_functions a\<rparr>)"

text \<open>
  \<^verbatim>\<open>Flask(import_name)\<close>: a new object with the default configuration, no error handlers,
  and the static-file rule. Of the defaults only the two mode switches are listed; the
  repository assigns \<^verbatim>\<open>TESTING\<close> and reads none.
\<close>

definition default_config :: "string \<rightharpoonup> cfg" where
  "default_config = [''DEBUG'' \<mapsto> CNone, ''TESTING'' \<mapsto> CBool False]"

definition Flask :: "string \<Rightarrow> process \<Rightarrow> ref \<times> process" where
  "Flask name p =
     (let a = \<lparr>import_name = name, config = default_config, url_map = [],
               view_functions = [], error_handler_spec = []\<rparr>;
          a1 = add_url_rule [Static ''/static/'', PathVar ''filename''] ''static''
                 V_send_static_file None a
      in (length (objects p), p\<lparr>objects := objects p @ [a1]\<rparr>))"

text \<open>\<^verbatim>\<open>@app.route(rule)\<close> on a function \<open>f\<close> is \<^verbatim>\<open>add_url_rule(rule, f.__name__, f)\<close>.\<close>

definition route :: "ref \<Rightarrow> rule_part list \<Rightarrow> string \<Rightarrow> view_id \<Rightarrow> process \<Rightarrow> process" where
  "route r parts fname view p = update_app r (add_url_rule parts fname view None) p"

text \<open>
  \<^verbatim>\<open>app.run(host, port)\<close> starts the development server for the object on that address.
  (Flask ignores the call when the process was started by its own command line runner;
  that runner imports the module under its own name, so the guarded call is not reached
  there.)
\<close>

definition run :: "ref \<Rightarrow> string \<Rightarrow> nat \<Rightarrow> process \<Rightarrow> process" where
  "run r host port p = p\<lparr>servers := servers p @ [(r, host, port)]\<rparr>"

section \<open>The module \<^verbatim>\<open>src/app.py\<close>\<close>

text \<open>
  \<^verbatim>\<open>
  @app.route('/')
  def hello():
      """Return a friendly HTTP greeting."""
      return 'Hello from DStudio Python Implementation!'
  \<close>
  A view may read the request through the framework's context and may change the process;
  \<open>hello\<close> takes both so that its not doing either is a statement about it.
\<close>

datatype view_rv = RvStr string | RvResponse response

definition hello :: "request \<Rightarrow> process \<Rightarrow> (http_exception + view_rv) \<times> process" where
  "hello rq p = (Inr (RvStr ''Hello from DStudio Python Implementation!''), p)"

text \<open>
  \<^verbatim>\<open>
  app = Flask(__name__)
  ...
  if __name__ == '__main__':
      app.run(host='0.0.0.0', port=8080)
  \<close>
  The module body, run under the name the interpreter gives it. The result is the object
  bound to the module's global \<^verbatim>\<open>app\<close> and the process afterwards.
\<close>

definition app_module :: "string \<Rightarrow> process \<Rightarrow> ref \<times> process" where
  "app_module name p =
     (let (app, p1) = Flask name p;
          p2 = route app [Static ''/''] ''hello'' V_hello p1;
          p3 = p2\<lparr>sys_modules := (sys_modules p2)(name \<mapsto> app)\<rparr>
      in if name = ''__main__'' then (app, run app ''0.0.0.0'' 8080 p3) else (app, p3))"

text \<open>
  \<^verbatim>\<open>from src.app import app\<close>: the body runs only if the module is not in the cache yet;
  every later import hands out the cached binding.
\<close>

definition import_app :: "process \<Rightarrow> ref \<times> process" where
  "import_app p =
     (case sys_modules p ''src.app'' of
        Some r \<Rightarrow> (r, p)
      | None \<Rightarrow> app_module ''src.app'' p)"

section \<open>Serving a request\<close>

text \<open>
  Matching a path against one rule gives the view arguments. A \<^verbatim>\<open>path\<close> variable is only
  used in last position and takes what its pattern \<^verbatim>\<open>[^/].*?\<close> takes: a non-empty rest that
  does not begin with a slash and has no line feed after its first character.
\<close>

fun match_parts :: "rule_part list \<Rightarrow> string \<Rightarrow> (string \<times> string) list option" where
  "match_parts [] s = (if s = [] then Some [] else None)"
| "match_parts (Static lit # ps) s =
     (if take (length lit) s = lit then match_parts ps (drop (length lit) s) else None)"
| "match_parts (PathVar v # ps) s =
     (if ps = [] \<and> s \<noteq> [] \<and> hd s \<noteq> CHR ''/'' \<and> CHR 0x0A \<notin> set (tl s)
      then Some [(v, s)] else None)"

text \<open>
  One pass of Werkzeug's matcher over the rules: the first rule whose path and method both
  match wins; the methods of the rules of which only the path matched are collected.
\<close>

fun match_rules ::
  "url_rule list \<Rightarrow> http_method \<Rightarrow> string \<Rightarrow> http_method set \<Rightarrow>
   http_method set + (url_rule \<times> (string \<times> string) list)" where
  "match_rules [] m path seen = Inl seen"
| "match_rules (r # rs) m path seen =
     (case match_parts (rule_parts r) path of
        None \<Rightarrow> match_rules rs m path seen
      | Some args \<Rightarrow>
          if m \<in> rule_methods r then Inr (r, args)
          else match_rules rs m path (seen \<union> rule_methods r))"

text \<open>
  Strict slashes: a path that lacks only the final slash of a rule without variables, asked
  for with a method of that rule, is redirected to the path with the slash.
\<close>

fun static_text :: "rule_part list \<Rightarrow> string option" where
  "static_text [] = Some []"
| "static_text (Static lit # ps) = map_option (\<lambda>rest. lit @ rest) (static_text ps)"
| "static_text (PathVar v # ps) = None"

fun slash_required :: "url_rule list \<Rightarrow> http_method \<Rightarrow> string \<Rightarrow> bool" where
  "slash_required [] m path = False"
| "slash_required (r # rs) m path =
     ((static_text (rule_parts r) = Some (path @ ''/'') \<and> m \<in> rule_methods r)
      \<or> slash_required rs m path)"

text \<open>
  Merged slashes: Werkzeug rewrites the path with \<^verbatim>\<open>re.sub("/{2,}?", "/", path)\<close>, which
  replaces pairs of slashes from the left.
\<close>

fun merge_slashes :: "string \<Rightarrow> string" where
  "merge_slashes (a # b # rest) =
     (if a = CHR ''/'' \<and> b = CHR ''/'' then CHR ''/'' # merge_slashes rest
      else a # merge_slashes (b # rest))"
| "merge_slashes s = s"

text \<open>
  Werkzeug's matcher. A rule that matches path and method is the result. Otherwise a
  missing final slash is answered with a redirect; otherwise the path is tried again with
  its slashes merged, and if it matches (or lacks only the final slash) in that form, the
  request is redirected to that form. What is left is \<^verbatim>\<open>MethodNotAllowed\<close> with the
  methods collected on the way, or \<^verbatim>\<open>NotFound\<close> when there are none.
\<close>

definition match_url ::
  "url_rule list \<Rightarrow> http_method \<Rightarrow> string \<Rightarrow>
   http_exception + (url_rule \<times> (string \<times> string) list)" where
  "match_url rules m path =
     (case match_rules rules m path {} of
        Inr hit \<Rightarrow> Inr hit
      | Inl seen \<Rightarrow>
          if slash_required rules m path then Inl (RequestRedirect (path @ ''/''))
          else (case match_rules rules m (merge_slashes path) seen of
                  Inr hit \<Rightarrow> Inl (RequestRedirect (merge_slashes path))
                | Inl seen2 \<Rightarrow>
                    if slash_required rules m (merge_slashes path)
                    then Inl (RequestRedirect (merge_slashes path @ ''/''))
                    else Inl (if seen2 = {} then NotFound else MethodNotAllowed seen2)))"

text \<open>\<^verbatim>\<open>send_static_file\<close>: the file of that name, or \<^verbatim>\<open>NotFound\<close>.\<close>

definition send_static_file ::
  "(string \<times> string) list \<Rightarrow> process \<Rightarrow> (http_exception + view_rv) \<times> process" where
  "send_static_file args p =
     (case map_of args ''filename'' of
        None \<Rightarrow> (Inl InternalServerError, p)
      | Some fname \<Rightarrow>
          (case map_of (static_files p) fname of
             None \<Rightarrow> (Inl NotFound, p)
           | Some (mt, content) \<Rightarrow>
               (Inr (RvResponse \<lparr>status_code = 200, data = content, mimetype = mt,
                                  allow = {}\<rparr>), p)))"

fun call_view ::
  "view_id \<Rightarrow> request \<Rightarrow> (string \<times> string) list \<Rightarrow> process \<Rightarrow>
   (http_exception + view_rv) \<times> process" where
  "call_view V_hello rq args p = hello rq p"
| "call_view V_send_static_file rq args p = send_static_file args p"

text \<open>
  \<^verbatim>\<open>Flask.make_response\<close>: a string becomes the body of a response with status 200 and the
  response class's default mimetype, which for Flask is \<^verbatim>\<open>text/html\<close>; a response object is
  passed through.
\<close>

definition default_mimetype :: string where
  "default_mimetype = ''text/html''"

fun make_response :: "view_rv \<Rightarrow> response" where
  "make_response (RvStr s) =
     \<lparr>status_code = 200, data = s, mimetype = default_mimetype, allow = {}\<rparr>"
| "make_response (RvResponse r) = r"

text \<open>
  The automatic answer to \<^verbatim>\<open>OPTIONS\<close>: an empty response whose \<^verbatim>\<open>Allow\<close> header lists the
  methods of every rule that matches the path.
\<close>

fun allowed_methods :: "url_rule list \<Rightarrow> string \<Rightarrow> http_method set" where
  "allowed_methods [] path = {}"
| "allowed_methods (r # rs) path =
     (case match_parts (rule_parts r) path of
        None \<Rightarrow> allowed_methods rs path
      | Some args \<Rightarrow> rule_methods r \<union> allowed_methods rs path)"

definition make_default_options_response :: "flask_app \<Rightarrow> request \<Rightarrow> response" where
  "make_default_options_response a rq =
     \<lparr>status_code = 200, data = '''', mimetype = default_mimetype,
      allow = allowed_methods (url_map a) (req_path rq)\<rparr>"

text \<open>
  What the caller of the WSGI application observes: a response built from a view's return
  value or by the framework's automatic \<^verbatim>\<open>OPTIONS\<close> answer, or the framework's own rendering
  of an HTTP exception for which the application registered no handler.
\<close>

datatype reply = Reply response | DefaultError http_exception

fun reply_status :: "reply \<Rightarrow> nat" where
  "reply_status (Reply r) = status_code r"
| "reply_status (DefaultError e) = code e"

record outcome =
  reply :: reply
  invoked :: "view_id list"

text \<open>
  \<^verbatim>\<open>Flask.dispatch_request\<close>: a routing exception is raised again; \<^verbatim>\<open>OPTIONS\<close> on a rule with
  automatic options is answered without a view; otherwise the view of the rule's endpoint
  is called.
\<close>

definition dispatch_request ::
  "flask_app \<Rightarrow> request \<Rightarrow> process \<Rightarrow> ((http_exception + view_rv) \<times> view_id list) \<times> process" where
  "dispatch_request a rq p =
     (case match_url (url_map a) (req_method rq) (req_path rq) of
        Inl e \<Rightarrow> ((Inl e, []), p)
      | Inr (r, args) \<Rightarrow>
          if provide_automatic_options r \<and> req_method rq = OPTIONS
          then ((Inr (RvResponse (make_default_options_response a rq)), []), p)
          else (case map_of (view_functions a) (endpoint r) of
                  None \<Rightarrow> ((Inl InternalServerError, []), p)
                | Some v \<Rightarrow> (let (res, p1) = call_view v rq args p in ((res, [v]), p1))))"

text \<open>
  \<^verbatim>\<open>Flask.full_dispatch_request\<close> with \<^verbatim>\<open>handle_user_exception\<close> and \<^verbatim>\<open>finalize_request\<close>: an
  HTTP exception goes to the handler registered for its code, and is itself the response
  when there is none. A redirect raised by routing is never offered to a handler.
\<close>

fun routing_exception :: "http_exception \<Rightarrow> bool" where
  "routing_exception (RequestRedirect location) = True"
| "routing_exception e = False"

definition find_error_handler :: "flask_app \<Rightarrow> http_exception \<Rightarrow> view_id option" where
  "find_error_handler a e =
     (if routing_exception e then None else map_of (error_handler_spec a) (code e))"

definition full_dispatch_request :: "flask_app \<Rightarrow> request \<Rightarrow> process \<Rightarrow> outcome \<times> process" where
  "full_dispatch_request a rq p =
     (let ((res, called), p1) = dispatch_request a rq p
      in case res of
           Inr rv \<Rightarrow> (\<lparr>reply = Reply (make_response rv), invoked = called\<rparr>, p1)
         | Inl e \<Rightarrow>
             (case find_error_handler a e of
                None \<Rightarrow> (\<lparr>reply = DefaultError e, invoked = called\<rparr>, p1)
              | Some h \<Rightarrow>
                  (let (res2, p2) = call_view h rq [] p1
                   in case res2 of
                        Inr rv \<Rightarrow> (\<lparr>reply = Reply (make_response rv), invoked = called @ [h]\<rparr>, p2)
                      | Inl e2 \<Rightarrow> (\<lparr>reply = DefaultError e2, invoked = called @ [h]\<rparr>, p2))))"

text \<open>
  \<^verbatim>\<open>Flask.wsgi_app\<close> on the object behind a reference. The body of the answer to a \<^verbatim>\<open>HEAD\<close>
  request is dropped on the way out. \<open>None\<close> stands for a reference to no object, which
  Python cannot produce.
\<close>

fun strip_body :: "reply \<Rightarrow> reply" where
  "strip_body (Reply r) = Reply (r\<lparr>data := ''''\<rparr>)"
| "strip_body (DefaultError e) = DefaultError e"

definition wsgi_app :: "ref \<Rightarrow> request \<Rightarrow> process \<Rightarrow> (outcome \<times> process) option" where
  "wsgi_app r rq p =
     (case deref r p of
        None \<Rightarrow> None
      | Some a \<Rightarrow>
          (let (out, p1) = full_dispatch_request a rq p
           in Some (if req_method rq = HEAD then out\<lparr>reply := strip_body (reply out)\<rparr> else out,
                    p1)))"

section \<open>The test module \<^verbatim>\<open>tests/test_app.py\<close>\<close>

text \<open>\<^verbatim>\<open>app.config[key] = value\<close>, through a reference to the object.\<close>

definition config_set :: "ref \<Rightarrow> string \<Rightarrow> cfg \<Rightarrow> process \<Rightarrow> process" where
  "config_set r k v p = update_app r (\<lambda>a. a\<lparr>config := (config a)(k \<mapsto> v)\<rparr>) p"

definition config_get :: "ref \<Rightarrow> string \<Rightarrow> process \<Rightarrow> cfg option" where
  "config_get r k p = (case deref r p of None \<Rightarrow> None | Some a \<Rightarrow> config a k)"

text \<open>
  \<^verbatim>\<open>
  @pytest.fixture
  def client():
      app.config['TESTING'] = True
      with app.test_client() as client:
          yield client
  \<close>
  The fixture up to its \<^verbatim>\<open>yield\<close>: the flag is set on the imported object, and the test
  client it hands out wraps that same object (a client is the reference it sends its
  requests to). What follows the \<^verbatim>\<open>yield\<close> only leaves the \<^verbatim>\<open>with\<close> block.
  \<open>client_get\<close> is \<^verbatim>\<open>client.get\<close> for an argument that is a bare path, as the test's \<^verbatim>\<open>'/'\<close>
  is: there is no query, fragment or host part for the client to split off.
\<close>

definition client_fixture :: "ref \<Rightarrow> process \<Rightarrow> ref \<times> process" where
  "client_fixture app p = (app, config_set app ''TESTING'' (CBool True) p)"

definition client_teardown :: "process \<Rightarrow> process" where
  "client_teardown p = p"

definition client_get :: "ref \<Rightarrow> string \<Rightarrow> process \<Rightarrow> (outcome \<times> process) option" where
  "client_get client path p =
     wsgi_app client \<lparr>req_method = GET, req_path = path, req_query = '''',
                      req_headers = [], req_body = ''''\<rparr> p"

text \<open>
  \<^verbatim>\<open>
  def test_hello(client):
      response = client.get('/')
      assert response.status_code == 200
      assert b'Hello from DStudio Python Implementation!' in response.data
  \<close>
  The result is whether both assertions hold; the second is only reached after the first,
  so an error reply, whose status is not 200, fails the test.
\<close>

definition test_hello :: "ref \<Rightarrow> process \<Rightarrow> (bool \<times> process) option" where
  "test_hello client p =
     (case client_get client ''/'' p of
        None \<Rightarrow> None
      | Some (out, p1) \<Rightarrow>
          Some (reply_status (reply out) = 200 \<and>
                (case reply out of
                   Reply r \<Rightarrow> sublist ''Hello from DStudio Python Implementation!'' (data r)
                 | DefaultError e \<Rightarrow> False), p1))"

section \<open>Processes\<close>

text \<open>
  What code that imports the module does with it in a test process. Each statement goes
  through the binding its own \<^verbatim>\<open>from src.app import app\<close> gave it.
\<close>

datatype event =
    Import
  | ConfigSet string cfg
  | ClientFixture
  | ClientTeardown
  | Open request

definition client_open :: "request \<Rightarrow> process \<Rightarrow> (outcome \<times> process) option" where
  "client_open rq p = (let (app, p1) = import_app p in wsgi_app app rq p1)"

fun step :: "event \<Rightarrow> process \<Rightarrow> process" where
  "step Import p = snd (import_app p)"
| "step (ConfigSet k v) p = (let (app, p1) = import_app p in config_set app k v p1)"
| "step ClientFixture p = (let (app, p1) = import_app p in snd (client_fixture app p1))"
| "step ClientTeardown p = client_teardown p"
| "step (Open rq) p =
     (case client_open rq p of None \<Rightarrow> snd (import_app p) | Some (out, p1) \<Rightarrow> p1)"

definition test_process :: "(string \<times> string \<times> string) list \<Rightarrow> event list \<Rightarrow> process" where
  "test_process files evs = fold step evs (snd (import_app (fresh files)))"

text \<open>
  \<^verbatim>\<open>python src/app.py\<close>: the module runs as \<^verbatim>\<open>__main__\<close>, and the server it starts hands
  every request it receives to the object it was started for.
\<close>

definition serve :: "request \<Rightarrow> process \<Rightarrow> (outcome \<times> process) option" where
  "serve rq p =
     (case servers p of
        [] \<Rightarrow> None
      | (r, host, port) # rest \<Rightarrow> wsgi_app r rq p)"

definition serve_step :: "request \<Rightarrow> process \<Rightarrow> process" where
  "serve_step rq p = (case serve rq p of None \<Rightarrow> p | Some (out, p1) \<Rightarrow> p1)"

definition script_process :: "(string \<times> string \<times> string) list \<Rightarrow> request list \<Rightarrow> process" where
  "script_process files rqs = fold serve_step rqs (snd (app_module ''__main__'' (fresh files)))"

text \<open>
  How pytest runs \<^verbatim>\<open>test_hello\<close>: the module's import, the fixture up to its \<^verbatim>\<open>yield\<close>,
  the test with the client the fixture yielded, and the rest of the fixture.
\<close>

definition run_test_hello :: "process \<Rightarrow> (bool \<times> process) option" where
  "run_test_hello p =
     (let (app, p1) = import_app p;
          (client, p2) = client_fixture app p1
      in case test_hello client p2 of
           None \<Rightarrow> None
         | Some (ok, p3) \<Rightarrow> Some (ok, client_teardown p3))"

section \<open>Observations and closed forms\<close>

text \<open>The response object behind an answer, when the answer is one.\<close>

definition answer :: "(outcome \<times> process) option \<Rightarrow> response option" where
  "answer x =
     (case x of
        None \<Rightarrow> None
      | Some (out, p) \<Rightarrow> (case reply out of Reply r \<Rightarrow> Some r | DefaultError e \<Rightarrow> None))"

text \<open>
  Which configuration key an event assigns, and which events are statements of the
  repository itself (the import, the fixture, the test client's requests) rather than an
  assignment some other importer makes.
\<close>

fun writes :: "string \<Rightarrow> event \<Rightarrow> bool" where
  "writes k (ConfigSet k' v) = (k' = k)"
| "writes k ClientFixture = (k = ''TESTING'')"
| "writes k e = False"

fun own_event :: "event \<Rightarrow> bool" where
  "own_event (ConfigSet k v) = False"
| "own_event e = True"



text \<open>
  The rest of this section names the values the proofs below compute: the URL map and the
  object that the module body builds, and the two process states it leaves behind. They
  are not part of the model; \<open>app_module_fresh\<close>, \<open>test_process_state\<close> and
  \<open>script_process_state\<close> derive them from it.
\<close>

definition hello_url_map :: "url_rule list" where
  "hello_url_map =
     [\<lparr>rule_parts = [Static ''/static/'', PathVar ''filename''],
       rule_methods = {HEAD, OPTIONS, GET}, endpoint = ''static'',
       provide_automatic_options = True\<rparr>,
      \<lparr>rule_parts = [Static ''/''],
       rule_methods = {HEAD, OPTIONS, GET}, endpoint = ''hello'',
       provide_automatic_options = True\<rparr>]"

definition hello_app :: "string \<Rightarrow> (string \<rightharpoonup> cfg) \<Rightarrow> flask_app" where
  "hello_app name c =
     \<lparr>import_name = name, config = c, url_map = hello_url_map,
      view_functions = [(''hello'', V_hello), (''static'', V_send_static_file)],
      error_handler_spec = []\<rparr>"

definition test_state :: "(string \<times> string \<times> string) list \<Rightarrow> (string \<rightharpoonup> cfg) \<Rightarrow> process" where
  "test_state files c =
     \<lparr>objects = [hello_app ''src.app'' c], sys_modules = [''src.app'' \<mapsto> 0], servers = [],
      static_files = files\<rparr>"

definition script_state :: "(string \<times> string \<times> string) list \<Rightarrow> process" where
  "script_state files =
     \<lparr>objects = [hello_app ''__main__'' default_config], sys_modules = [''__main__'' \<mapsto> 0],
      servers = [(0, ''0.0.0.0'', 8080)], static_files = files\<rparr>"

fun cfg_step :: "event \<Rightarrow> (string \<rightharpoonup> cfg) \<Rightarrow> (string \<rightharpoonup> cfg)" where
  "cfg_step (ConfigSet k v) c = c(k \<mapsto> v)"
| "cfg_step ClientFixture c = c(''TESTING'' \<mapsto> CBool True)"
| "cfg_step e c = c"

section \<open>What the module builds\<close>

lemma app_module_fresh:
  "app_module name (fresh files) =
     (0, \<lparr>objects = [hello_app name default_config], sys_modules = [name \<mapsto> 0],
          servers = (if name = ''__main__'' then [(0, ''0.0.0.0'', 8080)] else []),
          static_files = files\<rparr>)"
  by (simp add: app_module_def Flask_def route_def update_app_def add_url_rule_def run_def
      fresh_def hello_app_def hello_url_map_def Let_def insert_commute)

lemma import_app_fresh: "import_app (fresh files) = (0, test_state files default_config)"
proof -
  have "sys_modules (fresh files) ''src.app'' = None" by (simp add: fresh_def)
  then show ?thesis
    by (simp add: import_app_def app_module_fresh test_state_def)
qed

lemma import_app_test_state: "import_app (test_state files c) = (0, test_state files c)"
  by (simp add: import_app_def test_state_def)

section \<open>Requests leave the process as it was\<close>

lemma call_view_state: "snd (call_view v rq args p) = p"
  by (cases v) (simp_all add: hello_def send_static_file_def split: option.splits prod.splits)

lemma dispatch_request_state: "snd (dispatch_request a rq p) = p"
proof (cases "match_url (url_map a) (req_method rq) (req_path rq)")
  case (Inl e)
  then show ?thesis by (simp add: dispatch_request_def)
next
  case (Inr hit)
  obtain r args where hit: "hit = (r, args)" by (cases hit)
  show ?thesis
  proof (cases "map_of (view_functions a) (endpoint r)")
    case None
    then show ?thesis using Inr hit by (simp add: dispatch_request_def)
  next
    case (Some v)
    obtain res p1 where cv: "call_view v rq args p = (res, p1)" by (cases "call_view v rq args p")
    then have "p1 = p" using call_view_state [of v rq args p] by simp
    then show ?thesis using Inr hit Some cv by (simp add: dispatch_request_def)
  qed
qed

lemma full_dispatch_request_state: "snd (full_dispatch_request a rq p) = p"
proof -
  obtain res called p1 where d: "dispatch_request a rq p = ((res, called), p1)"
    by (metis prod.exhaust)
  then have p1: "p1 = p" using dispatch_request_state [of a rq p] by simp
  show ?thesis
  proof (cases res)
    case (Inr rv)
    then show ?thesis using d p1 by (simp add: full_dispatch_request_def)
  next
    case (Inl e)
    show ?thesis
    proof (cases "find_error_handler a e")
      case None
      then show ?thesis using d p1 Inl by (simp add: full_dispatch_request_def)
    next
      case (Some h)
      obtain res2 p2 where cv: "call_view h rq [] p = (res2, p2)" by (cases "call_view h rq [] p")
      then have "p2 = p" using call_view_state [of h rq "[]" p] by simp
      then show ?thesis using d p1 Inl Some cv
        by (cases res2) (simp_all add: full_dispatch_request_def)
    qed
  qed
qed

lemma wsgi_app_state:
  assumes "wsgi_app r rq p = Some (out, p1)"
  shows "p1 = p"
proof (cases "deref r p")
  case None
  then show ?thesis using assms by (simp add: wsgi_app_def)
next
  case (Some a)
  obtain out1 p2 where f: "full_dispatch_request a rq p = (out1, p2)"
    by (cases "full_dispatch_request a rq p")
  then have "p2 = p" using full_dispatch_request_state [of a rq p] by simp
  then show ?thesis using assms Some f by (simp add: wsgi_app_def)
qed

lemma wsgi_app_defined: "r < length (objects p) \<Longrightarrow> \<exists>out. wsgi_app r rq p = Some (out, p)"
  using full_dispatch_request_state [of "objects p ! r" rq p]
  by (cases "full_dispatch_request (objects p ! r) rq p") (simp add: wsgi_app_def deref_def)

section \<open>The reachable states\<close>

lemma config_set_test_state: "config_set 0 k v (test_state files c) = test_state files (c(k \<mapsto> v))"
  by (simp add: config_set_def update_app_def test_state_def hello_app_def)

lemma step_test_state: "step e (test_state files c) = test_state files (cfg_step e c)"
proof (cases e)
  case (Open rq)
  obtain out where "wsgi_app 0 rq (test_state files c) = Some (out, test_state files c)"
    using wsgi_app_defined [of 0 "test_state files c" rq] by (auto simp: test_state_def)
  then show ?thesis using Open by (simp add: client_open_def import_app_test_state)
qed (simp_all add: import_app_test_state config_set_test_state client_fixture_def client_teardown_def)

lemma fold_step_test_state:
  "fold step evs (test_state files c) = test_state files (fold cfg_step evs c)"
  by (induction evs arbitrary: c) (simp_all add: step_test_state)

lemma test_process_state:
  "test_process files evs = test_state files (fold cfg_step evs default_config)"
  by (simp add: test_process_def import_app_fresh fold_step_test_state)

section \<open>Routing and dispatch on the module's object\<close>


lemma static_rule_root: "match_parts [Static ''/static/'', PathVar ''filename''] ''/'' = None"
  by simp


lemma match_rules_root:
  "match_rules hello_url_map m ''/'' seen =
     (if m \<in> {HEAD, OPTIONS, GET}
      then Inr (\<lparr>rule_parts = [Static ''/''], rule_methods = {HEAD, OPTIONS, GET},
                 endpoint = ''hello'', provide_automatic_options = True\<rparr>, [])
      else Inl (seen \<union> {HEAD, OPTIONS, GET}))"
  by (simp add: hello_url_map_def)




lemma slash_required_hello:
  "slash_required hello_url_map m path = (path = [] \<and> m \<in> {HEAD, OPTIONS, GET})"
  by (auto simp: hello_url_map_def)

lemma match_url_root:
  "match_url hello_url_map m ''/'' =
     (if m \<in> {HEAD, OPTIONS, GET}
      then Inr (\<lparr>rule_parts = [Static ''/''], rule_methods = {HEAD, OPTIONS, GET},
                 endpoint = ''hello'', provide_automatic_options = True\<rparr>, [])
      else Inl (MethodNotAllowed {HEAD, OPTIONS, GET}))"
  by (simp add: match_url_def match_rules_root slash_required_hello)







lemma dispatch_get_root:
  "req_method rq = GET \<or> req_method rq = HEAD \<Longrightarrow> req_path rq = ''/'' \<Longrightarrow>
   full_dispatch_request (hello_app n c) rq p =
     (\<lparr>reply = Reply \<lparr>status_code = 200, data = ''Hello from DStudio Python Implementation!'',
                      mimetype = ''text/html'', allow = {}\<rparr>,
       invoked = [V_hello]\<rparr>, p)"
  by (auto simp: full_dispatch_request_def dispatch_request_def hello_app_def match_url_root
      hello_def default_mimetype_def)

lemma allowed_methods_root: "allowed_methods hello_url_map ''/'' = {HEAD, OPTIONS, GET}"
  by (simp add: hello_url_map_def)

lemma dispatch_options_root:
  "req_method rq = OPTIONS \<Longrightarrow> req_path rq = ''/'' \<Longrightarrow>
   full_dispatch_request (hello_app n c) rq p =
     (\<lparr>reply = Reply \<lparr>status_code = 200, data = '''', mimetype = ''text/html'',
                      allow = {HEAD, OPTIONS, GET}\<rparr>,
       invoked = []\<rparr>, p)"
  using allowed_methods_root
  by (simp add: full_dispatch_request_def dispatch_request_def hello_app_def match_url_root
      make_default_options_response_def default_mimetype_def)

lemma dispatch_other_root:
  "req_method rq \<notin> {GET, HEAD, OPTIONS} \<Longrightarrow> req_path rq = ''/'' \<Longrightarrow>
   full_dispatch_request (hello_app n c) rq p =
     (\<lparr>reply = DefaultError (MethodNotAllowed {HEAD, OPTIONS, GET}), invoked = []\<rparr>, p)"
  by (simp add: full_dispatch_request_def dispatch_request_def hello_app_def match_url_root
      find_error_handler_def)









lemma wsgi_app_hello:
  "deref r p = Some (hello_app n c) \<Longrightarrow>
   wsgi_app r rq p =
     Some (if req_method rq = HEAD
           then (fst (full_dispatch_request (hello_app n c) rq p))
                  \<lparr>reply := strip_body (reply (fst (full_dispatch_request (hello_app n c) rq p)))\<rparr>
           else fst (full_dispatch_request (hello_app n c) rq p), p)"
  using full_dispatch_request_state [of "hello_app n c" rq p]
  by (cases "full_dispatch_request (hello_app n c) rq p") (simp add: wsgi_app_def)

lemma deref_test_state: "deref 0 (test_state files c) = Some (hello_app ''src.app'' c)"
  by (simp add: deref_def test_state_def)

lemma client_open_test_state: "client_open rq (test_state files c) = wsgi_app 0 rq (test_state files c)"
  by (simp add: client_open_def import_app_test_state)

lemma script_process_state: "script_process files rqs = script_state files"
proof -
  have start: "snd (app_module ''__main__'' (fresh files)) = script_state files"
    by (simp add: app_module_fresh script_state_def)
  have one: "serve_step rq (script_state files) = script_state files" for rq
  proof -
    obtain out where "wsgi_app 0 rq (script_state files) = Some (out, script_state files)"
      using wsgi_app_defined [of 0 "script_state files" rq] by (auto simp: script_state_def)
    then show ?thesis by (simp add: serve_step_def serve_def) (simp add: script_state_def)
  qed
  have "fold serve_step rqs (script_state files) = script_state files"
    by (induction rqs) (simp_all add: one)
  then show ?thesis by (simp add: script_process_def start)
qed

lemma deref_script_state: "deref 0 (script_state files) = Some (hello_app ''__main__'' default_config)"
  by (simp add: deref_def script_state_def)

lemma serve_script_state: "serve rq (script_state files) = wsgi_app 0 rq (script_state files)"
  by (simp add: serve_def script_state_def)

lemma deref_test_process:
  "deref 0 (test_process files evs) = Some (hello_app ''src.app'' (fold cfg_step evs default_config))"
  by (simp add: test_process_state deref_test_state)

lemma client_open_test_process:
  "client_open rq (test_process files evs) = wsgi_app 0 rq (test_process files evs)"
  by (simp add: test_process_state client_open_test_state)

lemma deref_script_process:
  "deref 0 (script_process files rqs) = Some (hello_app ''__main__'' default_config)"
  by (simp add: script_process_state deref_script_state)

lemma serve_script_process:
  "serve rq (script_process files rqs) = wsgi_app 0 rq (script_process files rqs)"
  by (simp add: script_process_state serve_script_state)

lemma wsgi_get_root:
  assumes "deref r p = Some (hello_app n c)" and "req_method rq = GET" and "req_path rq = ''/''"
  shows "wsgi_app r rq p =
     Some (\<lparr>reply = Reply \<lparr>status_code = 200, data = ''Hello from DStudio Python Implementation!'',
                            mimetype = ''text/html'', allow = {}\<rparr>,
             invoked = [V_hello]\<rparr>, p)"
  using assms by (simp add: wsgi_app_hello dispatch_get_root)

lemma wsgi_head_root:
  assumes "deref r p = Some (hello_app n c)" and "req_method rq = HEAD" and "req_path rq = ''/''"
  shows "wsgi_app r rq p =
     Some (\<lparr>reply = Reply \<lparr>status_code = 200, data = '''', mimetype = ''text/html'', allow = {}\<rparr>,
             invoked = [V_hello]\<rparr>, p)"
  using assms by (simp add: wsgi_app_hello dispatch_get_root)

lemma wsgi_options_root:
  assumes "deref r p = Some (hello_app n c)" and "req_method rq = OPTIONS" and "req_path rq = ''/''"
  shows "wsgi_app r rq p =
     Some (\<lparr>reply = Reply \<lparr>status_code = 200, data = '''', mimetype = ''text/html'',
                            allow = {HEAD, OPTIONS, GET}\<rparr>,
             invoked = []\<rparr>, p)"
  using assms by (simp add: wsgi_app_hello dispatch_options_root)

lemma wsgi_other_root:
  assumes "deref r p = Some (hello_app n c)" and "req_method rq \<notin> {GET, HEAD, OPTIONS}"
    and "req_path rq = ''/''"
  shows "wsgi_app r rq p =
     Some (\<lparr>reply = DefaultError (MethodNotAllowed {HEAD, OPTIONS, GET}), invoked = []\<rparr>, p)"
  using assms by (simp add: wsgi_app_hello dispatch_other_root)







lemma fold_cfg_step_other:
  "\<forall>e\<in>set evs. \<not> writes k e \<Longrightarrow> fold cfg_step evs c k = c k"
proof (induction evs arbitrary: c)
  case Nil
  then show ?case by simp
next
  case (Cons e evs)
  have "cfg_step e c k = c k" using Cons.prems by (cases e) auto
  then show ?case using Cons by simp
qed

lemma fold_cfg_step_own:
  "list_all own_event evs \<Longrightarrow> c ''TESTING'' = Some (CBool True) \<Longrightarrow>
   fold cfg_step evs c ''TESTING'' = Some (CBool True)"
proof (induction evs arbitrary: c)
  case Nil
  then show ?case by simp
next
  case (Cons e evs)
  have "cfg_step e c ''TESTING'' = Some (CBool True)" using Cons.prems by (cases e) auto
  then show ?case using Cons by simp
qed

lemma config_get_test_process:
  "config_get 0 k (test_process files evs) = fold cfg_step evs default_config k"
  by (simp add: config_get_def deref_test_process hello_app_def)

lemma import_app_test_process:
  "import_app (test_process files evs) = (0, test_process files evs)"
  by (simp add: test_process_state import_app_test_state)

section \<open>Running the test, starting the server\<close>

lemma test_hello_test_state:
  "test_hello 0 (test_state files c) = Some (True, test_state files c)"
  using wsgi_get_root [OF deref_test_state, of "\<lparr>req_method = GET, req_path = ''/'', req_query = '''',
      req_headers = [], req_body = ''''\<rparr>" files c]
  by (simp add: test_hello_def client_get_def)

lemma run_test_hello_test_process:
  "run_test_hello (test_process files evs) =
     Some (True, test_process files (evs @ [ClientFixture]))"
  by (simp add: run_test_hello_def test_process_state import_app_test_state client_fixture_def
      config_set_test_state test_hello_test_state client_teardown_def)

lemma app_module_servers:
  "servers (snd (app_module name p)) =
     servers p @ (if name = ''__main__'' then [(fst (app_module name p), ''0.0.0.0'', 8080)] else [])"
  by (simp add: app_module_def Flask_def route_def update_app_def run_def Let_def)

lemma app_module_objects:
  "length (objects (snd (app_module name p))) = Suc (length (objects p))
   \<and> fst (app_module name p) = length (objects p)"
  by (simp add: app_module_def Flask_def route_def update_app_def run_def Let_def)

lemma import_app_servers: "servers (snd (import_app p)) = servers p"
  by (cases "sys_modules p ''src.app''") (simp_all add: import_app_def app_module_servers)

section \<open>The claims\<close>

text \<open>
  C1. Every \<^verbatim>\<open>GET\<close> request to the path \<^verbatim>\<open>/\<close>, whatever its query, headers and body, and
  whatever happened in the process before, is answered with a body that is exactly
  \<^verbatim>\<open>Hello from DStudio Python Implementation!\<close>, through the test client and through the
  server alike; in particular the body contains that string.
\<close>

theorem get_root_body:
  assumes "req_method rq = GET" and "req_path rq = ''/''"
  shows "map_option data (answer (client_open rq (test_process files evs)))
           = Some ''Hello from DStudio Python Implementation!''
       \<and> map_option data (answer (serve rq (script_process files rqs)))
           = Some ''Hello from DStudio Python Implementation!''
       \<and> map_option (sublist ''Hello from DStudio Python Implementation!'' \<circ> data)
            (answer (client_open rq (test_process files evs))) = Some True"
  using assms
    wsgi_get_root [OF deref_test_process, of rq files evs]
    wsgi_get_root [OF deref_script_process, of rq files rqs]
  by (simp add: client_open_test_process serve_script_process answer_def)

theorem get_root_body_witness:
  "map_option data (answer (client_open
      \<lparr>req_method = GET, req_path = ''/'', req_query = ''x=1'', req_headers = [], req_body = ''''\<rparr>
      (test_process [] [ClientFixture])))
     = Some ''Hello from DStudio Python Implementation!''
   \<and> map_option data (answer (serve
      \<lparr>req_method = GET, req_path = ''/'', req_query = ''x=1'', req_headers = [], req_body = ''''\<rparr>
      (script_process [] [])))
     = Some ''Hello from DStudio Python Implementation!''"
  using get_root_body [of "\<lparr>req_method = GET, req_path = ''/'', req_query = ''x=1'',
      req_headers = [], req_body = ''''\<rparr>" "[]" "[ClientFixture]" "[]"]
  by simp

text \<open>
  C2. Every \<^verbatim>\<open>GET\<close> request to the path \<^verbatim>\<open>/\<close> is answered with status 200, through the test
  client and through the server, in every state the process can be in; and the
  repository's own test, run by pytest with its fixture, passes.
\<close>

theorem get_root_status:
  assumes "req_method rq = GET" and "req_path rq = ''/''"
  shows "map_option (reply_status \<circ> reply \<circ> fst) (client_open rq (test_process files evs)) = Some 200
       \<and> map_option (reply_status \<circ> reply \<circ> fst) (serve rq (script_process files rqs)) = Some 200
       \<and> map_option fst (run_test_hello (test_process files evs)) = Some True"
  using assms
    wsgi_get_root [OF deref_test_process, of rq files evs]
    wsgi_get_root [OF deref_script_process, of rq files rqs]
  by (simp add: client_open_test_process serve_script_process run_test_hello_test_process)

theorem get_root_status_witness:
  "map_option (reply_status \<circ> reply \<circ> fst) (client_open
      \<lparr>req_method = GET, req_path = ''/'', req_query = '''', req_headers = [(''Accept'', ''*/*'')],
       req_body = ''''\<rparr> (test_process [] [Import])) = Some 200
   \<and> map_option fst (run_test_hello (test_process [] [Import])) = Some True"
  using get_root_status [of "\<lparr>req_method = GET, req_path = ''/'', req_query = '''',
      req_headers = [(''Accept'', ''*/*'')], req_body = ''''\<rparr>" "[]" "[Import]" "[]"]
  by simp

text \<open>
  C3, as amended. The handler returns a bare string and sets no content type, so a \<^verbatim>\<open>GET\<close>
  request to \<^verbatim>\<open>/\<close> is answered with the framework's default type for a string return
  value; for Flask that default is \<^verbatim>\<open>text/html\<close>.
\<close>

theorem get_root_mimetype:
  assumes "req_method rq = GET" and "req_path rq = ''/''"
  shows "map_option mimetype (answer (client_open rq (test_process files evs))) = Some default_mimetype
       \<and> map_option mimetype (answer (serve rq (script_process files rqs))) = Some default_mimetype
       \<and> default_mimetype = ''text/html''"
  using assms
    wsgi_get_root [OF deref_test_process, of rq files evs]
    wsgi_get_root [OF deref_script_process, of rq files rqs]
  by (simp add: client_open_test_process serve_script_process answer_def default_mimetype_def)

theorem get_root_mimetype_witness:
  "map_option mimetype (answer (client_open
      \<lparr>req_method = GET, req_path = ''/'', req_query = '''', req_headers = [], req_body = ''''\<rparr>
      (test_process [] []))) = Some ''text/html''"
  using get_root_mimetype [of "\<lparr>req_method = GET, req_path = ''/'', req_query = '''',
      req_headers = [], req_body = ''''\<rparr>" "[]" "[]" "[]"]
  by simp

text \<open>
  The claim as written names plain text as that default. The first request of a fresh test
  process already shows the difference.
\<close>

theorem get_root_plain_text_counterexample:
  "map_option mimetype (answer (client_get 0 ''/'' (test_process [] []))) = Some ''text/html''
   \<and> map_option mimetype (answer (client_get 0 ''/'' (test_process [] []))) \<noteq> Some ''text/plain''"
  using wsgi_get_root [OF deref_test_process, of "\<lparr>req_method = GET, req_path = ''/'',
      req_query = '''', req_headers = [], req_body = ''''\<rparr>" "[]" "[]"]
  by (simp add: client_get_def answer_def)

text \<open>
  C4. The handler for \<^verbatim>\<open>GET /\<close> is deterministic: a \<^verbatim>\<open>GET\<close> request to \<^verbatim>\<open>/\<close> leaves the process
  as it was, a second one made in the state the first left gets the same reply, and the
  body is the same in any two states of any two test processes.
\<close>

theorem get_root_deterministic:
  assumes "req_method rq1 = GET" and "req_path rq1 = ''/''"
    and "req_method rq2 = GET" and "req_path rq2 = ''/''"
  shows "(\<exists>out1 out2.
            client_open rq1 (test_process files evs) = Some (out1, test_process files evs)
          \<and> client_open rq2 (test_process files evs) = Some (out2, test_process files evs)
          \<and> reply out1 = reply out2)
       \<and> (\<exists>out1 out2.
            serve rq1 (script_process files rqs) = Some (out1, script_process files rqs)
          \<and> serve rq2 (script_process files rqs) = Some (out2, script_process files rqs)
          \<and> reply out1 = reply out2)
       \<and> map_option data (answer (client_open rq1 (test_process files evs)))
           = map_option data (answer (client_open rq2 (test_process files' evs')))"
  using assms
    wsgi_get_root [OF deref_test_process, of rq1 files evs]
    wsgi_get_root [OF deref_test_process, of rq2 files evs]
    wsgi_get_root [OF deref_test_process, of rq2 files' evs']
    wsgi_get_root [OF deref_script_process, of rq1 files rqs]
    wsgi_get_root [OF deref_script_process, of rq2 files rqs]
  by (simp add: client_open_test_process serve_script_process answer_def)

theorem get_root_deterministic_witness:
  "map_option data (answer (client_open
      \<lparr>req_method = GET, req_path = ''/'', req_query = '''', req_headers = [], req_body = ''''\<rparr>
      (test_process [] [])))
   = map_option data (answer (client_open
      \<lparr>req_method = GET, req_path = ''/'', req_query = ''again'', req_headers = [], req_body = ''''\<rparr>
      (test_process [] [ClientFixture, ClientTeardown])))"
  using get_root_deterministic [of
      "\<lparr>req_method = GET, req_path = ''/'', req_query = '''', req_headers = [], req_body = ''''\<rparr>"
      "\<lparr>req_method = GET, req_path = ''/'', req_query = ''again'', req_headers = [], req_body = ''''\<rparr>"
      "[]" "[]" "[]" "[]" "[ClientFixture, ClientTeardown]"]
  by simp




text \<open>
  C6. The module body starts a server exactly when it runs under the name \<^verbatim>\<open>__main__\<close>, and
  then one server, for the object it has just built, on host \<^verbatim>\<open>0.0.0.0\<close> and port 8080.
  Importing the module never starts one: a test process has no server, whatever it does.
\<close>

theorem main_guard:
  "servers (snd (app_module name p)) =
     servers p @ (if name = ''__main__'' then [(fst (app_module name p), ''0.0.0.0'', 8080)] else [])
   \<and> servers (snd (import_app p)) = servers p
   \<and> servers (test_process files evs) = []
   \<and> servers (script_process files rqs) = [(0, ''0.0.0.0'', 8080)]"
  by (simp add: app_module_servers import_app_servers test_process_state test_state_def
      script_process_state script_state_def)

theorem main_guard_witness:
  "servers (snd (app_module ''__main__'' (fresh []))) = [(0, ''0.0.0.0'', 8080)]
   \<and> servers (snd (app_module ''src.app'' (fresh []))) = []
   \<and> servers (test_process [] [Import, ClientFixture]) = []"
  using main_guard [of "''__main__''" "fresh []" "[]" "[Import, ClientFixture]" "[]"]
    main_guard [of "''src.app''" "fresh []" "[]" "[]" "[]"]
  by (simp add: fresh_def app_module_objects)

text \<open>
  C7. Handling \<^verbatim>\<open>GET /\<close> has no side effect: the process after the request is the process
  before it (objects, configuration, URL map, module cache, servers, files), in a test
  process and in the served one. \<^verbatim>\<open>hello\<close> itself returns the state it was given, and its
  result does not depend on the request or on the state, so nothing of either is kept.
\<close>

theorem get_root_frame:
  assumes "req_method rq = GET" and "req_path rq = ''/''"
  shows "(\<exists>out. client_open rq (test_process files evs) = Some (out, test_process files evs))
       \<and> (\<exists>out. serve rq (script_process files rqs) = Some (out, script_process files rqs))
       \<and> hello rq q = (Inr (RvStr ''Hello from DStudio Python Implementation!''), q)
       \<and> fst (hello rq q) = fst (hello rq' q')"
  using assms
    wsgi_get_root [OF deref_test_process, of rq files evs]
    wsgi_get_root [OF deref_script_process, of rq files rqs]
  by (simp add: client_open_test_process serve_script_process hello_def)

theorem get_root_frame_witness:
  "map_option snd (client_open
      \<lparr>req_method = GET, req_path = ''/'', req_query = '''', req_headers = [], req_body = ''''\<rparr>
      (test_process [(''a.css'', ''text/css'', ''p{}'')] [ClientFixture]))
   = Some (test_process [(''a.css'', ''text/css'', ''p{}'')] [ClientFixture])"
  using get_root_frame [of "\<lparr>req_method = GET, req_path = ''/'', req_query = '''',
      req_headers = [], req_body = ''''\<rparr>" "[(''a.css'', ''text/css'', ''p{}'')]" "[ClientFixture]"
      "[]" "fresh []" "\<lparr>req_method = GET, req_path = ''/'', req_query = '''',
      req_headers = [], req_body = ''''\<rparr>" "fresh []"]
  by auto

text \<open>
  C8. A fresh process has no application object; running the module body constructs
  exactly one; and from then on there is exactly one, at the same reference, whatever the
  process does: every later import returns it without running the body again, the test
  client wraps it, and the server of a script process serves it.
\<close>

theorem single_app_object:
  "objects (fresh files) = []
   \<and> length (objects (snd (app_module name p))) = Suc (length (objects p))
   \<and> length (objects (test_process files evs)) = 1
   \<and> import_app (test_process files evs) = (0, test_process files evs)
   \<and> fst (client_fixture (fst (import_app (test_process files evs)))
                          (snd (import_app (test_process files evs)))) = 0
   \<and> length (objects (script_process files rqs)) = 1
   \<and> map fst (servers (script_process files rqs)) = [0]
   \<and> sys_modules (script_process files rqs) ''__main__'' = Some 0"
  by (simp add: fresh_def app_module_objects import_app_test_process client_fixture_def)
     (simp add: test_process_state test_state_def script_process_state script_state_def)

theorem single_app_object_witness:
  "length (objects (test_process [] [Import, ClientFixture, Import, ClientTeardown])) = 1
   \<and> import_app (test_process [] [Import, ClientFixture, Import, ClientTeardown])
       = (0, test_process [] [Import, ClientFixture, Import, ClientTeardown])"
  using single_app_object [of "[]" "''src.app''" "fresh []"
      "[Import, ClientFixture, Import, ClientTeardown]" "[]"]
  by simp

text \<open>
  C9. The rule for \<^verbatim>\<open>/\<close> is registered without a method list and so answers \<^verbatim>\<open>GET\<close>, \<^verbatim>\<open>HEAD\<close>
  and \<^verbatim>\<open>OPTIONS\<close>: \<^verbatim>\<open>HEAD /\<close> is answered with status 200 and an empty body, \<^verbatim>\<open>OPTIONS /\<close> with
  status 200, and every other method on \<^verbatim>\<open>/\<close> with 405.
\<close>

theorem default_methods_root:
  assumes "req_path rh = ''/''" and "req_method rh = HEAD"
    and "req_path ro = ''/''" and "req_method ro = OPTIONS"
    and "req_path rm = ''/''" and "req_method rm \<notin> {GET, HEAD, OPTIONS}"
  shows "map (\<lambda>r. (rule_parts r, rule_methods r))
             (url_map (add_url_rule [Static ''/''] ''hello'' V_hello None a))
           = map (\<lambda>r. (rule_parts r, rule_methods r)) (url_map a)
             @ [([Static ''/''], {GET, HEAD, OPTIONS})]
       \<and> map_option fst (client_open rh (test_process files evs))
           = Some \<lparr>reply = Reply \<lparr>status_code = 200, data = '''', mimetype = ''text/html'',
                                   allow = {}\<rparr>, invoked = [V_hello]\<rparr>
       \<and> map_option fst (serve rh (script_process files rqs))
           = Some \<lparr>reply = Reply \<lparr>status_code = 200, data = '''', mimetype = ''text/html'',
                                   allow = {}\<rparr>, invoked = [V_hello]\<rparr>
       \<and> map_option fst (client_open ro (test_process files evs))
           = Some \<lparr>reply = Reply \<lparr>status_code = 200, data = '''', mimetype = ''text/html'',
                                   allow = {GET, HEAD, OPTIONS}\<rparr>, invoked = []\<rparr>
       \<and> map_option fst (serve ro (script_process files rqs))
           = Some \<lparr>reply = Reply \<lparr>status_code = 200, data = '''', mimetype = ''text/html'',
                                   allow = {GET, HEAD, OPTIONS}\<rparr>, invoked = []\<rparr>
       \<and> map_option (reply_status \<circ> reply \<circ> fst) (client_open rm (test_process files evs))
           = Some 405
       \<and> map_option (reply_status \<circ> reply \<circ> fst) (serve rm (script_process files rqs))
           = Some 405"
proof -
  have ms: "{HEAD, OPTIONS, GET} = {GET, HEAD, OPTIONS}" by auto
  have reg: "map (\<lambda>r. (rule_parts r, rule_methods r))
             (url_map (add_url_rule [Static ''/''] ''hello'' V_hello None a))
           = map (\<lambda>r. (rule_parts r, rule_methods r)) (url_map a)
             @ [([Static ''/''], {GET, HEAD, OPTIONS})]"
    by (auto simp: add_url_rule_def)
  have h: "map_option fst (client_open rh (test_process files evs))
           = Some \<lparr>reply = Reply \<lparr>status_code = 200, data = '''', mimetype = ''text/html'',
                                   allow = {}\<rparr>, invoked = [V_hello]\<rparr>"
    "map_option fst (serve rh (script_process files rqs))
           = Some \<lparr>reply = Reply \<lparr>status_code = 200, data = '''', mimetype = ''text/html'',
                                   allow = {}\<rparr>, invoked = [V_hello]\<rparr>"
    using assms(1,2) wsgi_head_root [OF deref_test_process, of rh files evs]
      wsgi_head_root [OF deref_script_process, of rh files rqs]
    by (simp_all add: client_open_test_process serve_script_process)
  have o: "map_option fst (client_open ro (test_process files evs))
           = Some \<lparr>reply = Reply \<lparr>status_code = 200, data = '''', mimetype = ''text/html'',
                                   allow = {GET, HEAD, OPTIONS}\<rparr>, invoked = []\<rparr>"
    "map_option fst (serve ro (script_process files rqs))
           = Some \<lparr>reply = Reply \<lparr>status_code = 200, data = '''', mimetype = ''text/html'',
                                   allow = {GET, HEAD, OPTIONS}\<rparr>, invoked = []\<rparr>"
    using assms(3,4) wsgi_options_root [OF deref_test_process, of ro files evs]
      wsgi_options_root [OF deref_script_process, of ro files rqs]
    by (simp_all add: client_open_test_process serve_script_process ms)
  have m: "map_option (reply_status \<circ> reply \<circ> fst) (client_open rm (test_process files evs))
           = Some 405"
    "map_option (reply_status \<circ> reply \<circ> fst) (serve rm (script_process files rqs)) = Some 405"
    using assms(5,6) wsgi_other_root [OF deref_test_process, of rm files evs]
      wsgi_other_root [OF deref_script_process, of rm files rqs]
    by (simp_all add: client_open_test_process serve_script_process)
  show ?thesis using reg h o m by blast
qed

theorem default_methods_root_witness:
  "map_option (reply_status \<circ> reply \<circ> fst) (client_open
      \<lparr>req_method = HEAD, req_path = ''/'', req_query = '''', req_headers = [], req_body = ''''\<rparr>
      (test_process [] [])) = Some 200
   \<and> map_option (reply_status \<circ> reply \<circ> fst) (client_open
      \<lparr>req_method = OPTIONS, req_path = ''/'', req_query = '''', req_headers = [], req_body = ''''\<rparr>
      (test_process [] [])) = Some 200
   \<and> map_option (reply_status \<circ> reply \<circ> fst) (client_open
      \<lparr>req_method = DELETE, req_path = ''/'', req_query = '''', req_headers = [], req_body = ''''\<rparr>
      (test_process [] [])) = Some 405"
proof -
  let ?head = "\<lparr>req_method = HEAD, req_path = ''/'', req_query = '''', req_headers = [],
      req_body = ''''\<rparr>"
  let ?options = "\<lparr>req_method = OPTIONS, req_path = ''/'', req_query = '''', req_headers = [],
      req_body = ''''\<rparr>"
  let ?delete = "\<lparr>req_method = DELETE, req_path = ''/'', req_query = '''', req_headers = [],
      req_body = ''''\<rparr>"
  have h1: "req_path ?head = ''/''" and h2: "req_method ?head = HEAD"
    and h3: "req_path ?options = ''/''" and h4: "req_method ?options = OPTIONS"
    and h5: "req_path ?delete = ''/''" and h6: "req_method ?delete \<notin> {GET, HEAD, OPTIONS}"
    by simp_all
  show ?thesis
    using default_methods_root [OF h1 h2 h3 h4 h5 h6, of "hello_app [] default_config" "[]" "[]" "[]"]
    by auto
qed

text \<open>
  C10. The configuration lives in the one shared object: a value that any importer assigns
  to a key is what every importer reads afterwards, until someone assigns that key again;
  the \<^verbatim>\<open>TESTING\<close> flag set by the fixture stays set through everything the repository's own
  code does later, the fixture's teardown included; and an import never yields a second
  object, so no test can get an instance of its own from the module.
\<close>

theorem shared_config:
  assumes "\<forall>e\<in>set evs2. \<not> writes k e" and "list_all own_event evs4"
  shows "config_get (fst (import_app (test_process files (evs1 @ ConfigSet k v # evs2)))) k
           (snd (import_app (test_process files (evs1 @ ConfigSet k v # evs2)))) = Some v
       \<and> config_get (fst (import_app (test_process files (evs3 @ ClientFixture # evs4)))) ''TESTING''
           (snd (import_app (test_process files (evs3 @ ClientFixture # evs4)))) = Some (CBool True)
       \<and> import_app (test_process files evs) = (0, test_process files evs)
       \<and> length (objects (test_process files evs)) = 1"
proof -
  have "fold cfg_step evs2 ((fold cfg_step evs1 default_config)(k \<mapsto> v)) k = Some v"
    using assms(1) by (simp add: fold_cfg_step_other)
  then have a: "config_get 0 k (test_process files (evs1 @ ConfigSet k v # evs2)) = Some v"
    by (simp add: config_get_test_process)
  have "fold cfg_step evs4 ((fold cfg_step evs3 default_config)(''TESTING'' \<mapsto> CBool True))
          ''TESTING'' = Some (CBool True)"
    using assms(2) by (simp add: fold_cfg_step_own)
  then have b: "config_get 0 ''TESTING'' (test_process files (evs3 @ ClientFixture # evs4))
      = Some (CBool True)"
    by (simp add: config_get_test_process)
  have c: "length (objects (test_process files evs)) = 1"
    by (simp add: test_process_state test_state_def)
  show ?thesis using a b c by (simp add: import_app_test_process)
qed

theorem shared_config_witness:
  "config_get 0 ''DEBUG'' (test_process [] [Import, ConfigSet ''DEBUG'' (CBool True), ClientFixture,
       Import]) = Some (CBool True)
   \<and> config_get 0 ''TESTING'' (test_process [] [ClientFixture, ClientTeardown, Import])
       = Some (CBool True)
   \<and> config_get 0 ''TESTING'' (test_process [] []) = Some (CBool False)"
proof -
  have h1: "\<forall>e\<in>set [ClientFixture, Import]. \<not> writes ''DEBUG'' e" by simp
  have h2: "list_all own_event [ClientTeardown, Import]" by simp
  have before: "config_get 0 ''TESTING'' (test_process [] []) = Some (CBool False)"
    by (simp add: config_get_test_process default_config_def)
  show ?thesis
    using shared_config [OF h1 h2, of "[]" "[Import]" "CBool True" "[]" "[]"] before
    by (simp add: import_app_test_process)
qed

end
